theory Spec2Isabelle
  imports Main "HOL-Library.Word"
begin

section \<open>Values, byte slices and errors\<close>

text \<open>
  The three adapters of the repository (packages \<open>ristretto\<close>, \<open>pebble\<close> and \<open>nutsdb\<close>)
  implement the \<open>gokv.Store\<close> operations \<open>Set\<close>, \<open>Get\<close>, \<open>Delete\<close> and the constructor
  \<open>NewStore\<close> on top of a storage engine of a third party. Every engine is a parameter
  of the model: a record of the calls the adapter makes, acting on an engine state \<open>'s\<close>.
  A call on the handle \<open>s.db\<close> takes the state and returns the new one.
\<close>

text \<open>A key converted by \<open>[]byte(k)\<close>: a slice that is never nil.\<close>

type_synonym bytes = "char list"

text \<open>A Go \<open>[]byte\<close> whose nil-ness the code tests: \<open>None\<close> is the nil slice.\<close>

type_synonym gobytes = "char list option"

text \<open>Go's \<open>int64\<close> and \<open>uint32\<close>: machine words (\<open>sint\<close> reads the signed value).\<close>

type_synonym int64 = "64 word"

type_synonym uint32 = "32 word"

definition bytes_of_string :: "string \<Rightarrow> bytes" where
  "bytes_of_string k = k"

text \<open>
  An argument of type \<open>interface{}\<close>: the nil interface, a typed pointer that is nil, or
  a value (for \<open>Get\<close>, a pointer to a location that holds the value).
\<close>

datatype 'a iface = Nil_iface | Nil_ptr | Val 'a

text \<open>
  The errors the adapters return. \<open>ErrNotFound\<close> is \<open>pebble.ErrNotFound\<close>; \<open>EngineError\<close>
  stands for every other error value of an engine and \<open>CodecError\<close> for those of a codec.
  \<open>NilCodecPanic\<close> is not a returned error: it marks the run-time panic of a method call
  on a nil \<open>encoding.Codec\<close>, after which the operation does not return.
\<close>

datatype error =
    EmptyKeyError
  | NilValueError
  | ErrPairIsNotAdded
  | ErrFailedToCast
  | ErrNotFound
  | CodecError string
  | EngineError string
  | NilCodecPanic

section \<open>Package util\<close>

text \<open>
  Modelled from the spec: the package \<open>util\<close> (\<open>CheckKey\<close>, \<open>CheckKeyAndValue\<close>) is not
  among the sources. The spec: a value or output target is rejected when it is nil or
  absent; a read target must be a non-nil addressable location.
\<close>

fun is_nil :: "'a iface \<Rightarrow> bool" where
  "is_nil Nil_iface = True"
| "is_nil Nil_ptr = True"
| "is_nil (Val x) = False"

text \<open>
  Modelled from the spec: \<open>CheckKey(key)\<close> fails with \<open>EmptyKeyError\<close> iff the key is empty.
\<close>

definition CheckKey :: "string \<Rightarrow> error option" where
  "CheckKey k = (if k = [] then Some EmptyKeyError else None)"

text \<open>
  Modelled from the spec: \<open>CheckKeyAndValue(key, value)\<close> runs \<open>CheckKey\<close>, then fails
  with \<open>NilValueError\<close> iff the value is nil or absent.
\<close>

definition CheckKeyAndValue :: "string \<Rightarrow> 'a iface \<Rightarrow> error option" where
  "CheckKeyAndValue k v =
     (case CheckKey k of
        Some err \<Rightarrow> Some err
      | None \<Rightarrow> if is_nil v then Some NilValueError else None)"

section \<open>Package encoding\<close>

text \<open>
  The interface \<open>encoding.Codec\<close>: \<open>Marshal(v)\<close> returns bytes or an error;
  \<open>Unmarshal(data, v)\<close> populates the target \<open>v\<close> in place and returns an error or nil.
  The model of \<open>Unmarshal\<close> returns the target as the call leaves it. A field of type
  \<open>encoding.Codec\<close> is an option: \<open>None\<close> is the nil interface.
\<close>

record 'a Codec =
  Marshal :: "'a iface \<Rightarrow> error + gobytes"
  Unmarshal :: "gobytes \<Rightarrow> 'a iface \<Rightarrow> error option \<times> 'a iface"

section \<open>The ristretto adapter\<close>

text \<open>What the cache holds under a key, an \<open>interface{}\<close>: nil, a \<open>[]byte\<close>, or a value
  of another type.\<close>

datatype cache_value = NilValue | Bytes gobytes | Other

text \<open>The calls on \<open>*ristretto.Cache\<close>: \<open>Set(key, value, cost) bool\<close>,
  \<open>Get(key) (interface{}, bool)\<close> and \<open>Del(key)\<close>.\<close>

record 's ristretto_Cache =
  Cache_Set :: "'s \<Rightarrow> string \<Rightarrow> cache_value \<Rightarrow> int64 \<Rightarrow> bool \<times> 's"
  Cache_Get :: "'s \<Rightarrow> string \<Rightarrow> (cache_value \<times> bool) \<times> 's"
  Cache_Del :: "'s \<Rightarrow> string \<Rightarrow> 's"

record ('s, 'a) ristretto_Store =
  ristretto_db :: 's
  ristretto_codec :: "'a Codec option"

definition ristretto_Set ::
  "'s ristretto_Cache \<Rightarrow> ('s, 'a) ristretto_Store \<Rightarrow> string \<Rightarrow> 'a iface \<Rightarrow>
     error option \<times> ('s, 'a) ristretto_Store" where
  "ristretto_Set C s k v =
     (case CheckKeyAndValue k v of
        Some err \<Rightarrow> (Some err, s)
      | None \<Rightarrow>
          (case ristretto_codec s of
             None \<Rightarrow> (Some NilCodecPanic, s)
           | Some codec \<Rightarrow>
               (case Marshal codec v of
                  Inl err \<Rightarrow> (Some err, s)
                | Inr data \<Rightarrow>
                    (case Cache_Set C (ristretto_db s) k (Bytes data) 0 of
                       (added, db') \<Rightarrow>
                         if \<not> added then (Some ErrPairIsNotAdded, s\<lparr>ristretto_db := db'\<rparr>)
                         else (None, s\<lparr>ristretto_db := db'\<rparr>)))))"

definition ristretto_Get ::
  "'s ristretto_Cache \<Rightarrow> ('s, 'a) ristretto_Store \<Rightarrow> string \<Rightarrow> 'a iface \<Rightarrow>
     (bool \<times> error option) \<times> 'a iface \<times> ('s, 'a) ristretto_Store" where
  "ristretto_Get C s k v =
     (case CheckKeyAndValue k v of
        Some err \<Rightarrow> ((False, Some err), v, s)
      | None \<Rightarrow>
          (case Cache_Get C (ristretto_db s) k of
             ((value, ok), db') \<Rightarrow>
               if \<not> ok \<or> value = NilValue then ((False, None), v, s\<lparr>ristretto_db := db'\<rparr>)
               else
                 (case value of
                    Bytes data \<Rightarrow>
                      (case ristretto_codec s of
                         None \<Rightarrow> ((False, Some NilCodecPanic), v, s\<lparr>ristretto_db := db'\<rparr>)
                       | Some codec \<Rightarrow>
                           (case Unmarshal codec data v of
                              (err, v') \<Rightarrow> ((True, err), v', s\<lparr>ristretto_db := db'\<rparr>)))
                  | _ \<Rightarrow> ((False, Some ErrFailedToCast), v, s\<lparr>ristretto_db := db'\<rparr>))))"

definition ristretto_Delete ::
  "'s ristretto_Cache \<Rightarrow> ('s, 'a) ristretto_Store \<Rightarrow> string \<Rightarrow>
     error option \<times> ('s, 'a) ristretto_Store" where
  "ristretto_Delete C s k =
     (case CheckKey k of
        Some err \<Rightarrow> (Some err, s)
      | None \<Rightarrow> (None, s\<lparr>ristretto_db := Cache_Del C (ristretto_db s) k\<rparr>))"

text \<open>\<open>ristretto.Options\<close>, the \<open>ristretto.Config\<close> handed to the engine, and the initial
  value of the package variable \<open>DefaultOptions\<close> (\<open>JSON\<close> is \<open>encoding.JSON\<close>).\<close>

record 'a ristretto_Options =
  ristretto_NumCounters :: int64
  ristretto_MaxCost :: int64
  ristretto_BufferItems :: int64
  ristretto_Metrics :: bool
  ristretto_Codec :: "'a Codec option"

record ristretto_Config =
  Config_NumCounters :: int64
  Config_MaxCost :: int64
  Config_BufferItems :: int64
  Config_Metrics :: bool

definition ristretto_DefaultOptions :: "'a Codec \<Rightarrow> 'a ristretto_Options" where
  "ristretto_DefaultOptions JSON =
     \<lparr>ristretto_NumCounters = 1000, ristretto_MaxCost = 100, ristretto_BufferItems = 64,
      ristretto_Metrics = False, ristretto_Codec = Some JSON\<rparr>"

text \<open>
  \<open>NewStore\<close> reads the package variable \<open>DefaultOptions\<close>: the model takes its current
  value and returns it with the result, as the call leaves it. \<open>NewCache\<close> is
  \<open>ristretto.NewCache\<close>. The parameter \<open>options\<close> is passed by value and assigned to;
  \<open>options1\<close> to \<open>options4\<close> are its successive values.
\<close>

definition ristretto_NewStore ::
  "(ristretto_Config \<Rightarrow> error + 's) \<Rightarrow> 'a ristretto_Options \<Rightarrow> 'a ristretto_Options \<Rightarrow>
     (error + ('s, 'a) ristretto_Store) \<times> 'a ristretto_Options" where
  "ristretto_NewStore NewCache DefaultOptions options =
     (let options1 =
            (if ristretto_Codec options = None
             then options\<lparr>ristretto_Codec := ristretto_Codec DefaultOptions\<rparr> else options);
          options2 =
            (if ristretto_NumCounters options1 = ristretto_NumCounters options1
             then options1\<lparr>ristretto_NumCounters := ristretto_NumCounters DefaultOptions\<rparr>
             else options1);
          options3 =
            (if ristretto_MaxCost options2 = ristretto_MaxCost options2
             then options2\<lparr>ristretto_MaxCost := ristretto_MaxCost DefaultOptions\<rparr>
             else options2);
          options4 =
            (if ristretto_BufferItems options3 = ristretto_BufferItems options3
             then options3\<lparr>ristretto_BufferItems := ristretto_BufferItems DefaultOptions\<rparr>
             else options3)
      in case NewCache \<lparr>Config_NumCounters = ristretto_NumCounters options4,
                        Config_MaxCost = ristretto_MaxCost options4,
                        Config_BufferItems = ristretto_BufferItems options4,
                        Config_Metrics = ristretto_Metrics options4\<rparr> of
           Inl err \<Rightarrow> (Inl err, DefaultOptions)
         | Inr db \<Rightarrow>
             (Inr \<lparr>ristretto_db = db, ristretto_codec = ristretto_Codec options4\<rparr>,
              DefaultOptions))"

section \<open>The pebble adapter\<close>

text \<open>
  The calls on \<open>*pebble.DB\<close>. \<open>Get(key)\<close> returns \<open>(value, closer, err)\<close>: the model gives
  the error, or the value with what \<open>closer.Close()\<close> returns. \<open>Set\<close> and \<open>Delete\<close> take the
  \<open>*pebble.WriteOptions\<close>, nil (\<open>None\<close>) unless the store writes synchronously.
\<close>

record pebble_WriteOptions =
  Sync :: bool

record 's pebble_DB =
  DB_Get :: "'s \<Rightarrow> bytes \<Rightarrow> (error + gobytes \<times> error option) \<times> 's"
  DB_Set :: "'s \<Rightarrow> bytes \<Rightarrow> gobytes \<Rightarrow> pebble_WriteOptions option \<Rightarrow> error option \<times> 's"
  DB_Delete :: "'s \<Rightarrow> bytes \<Rightarrow> pebble_WriteOptions option \<Rightarrow> error option \<times> 's"

record ('s, 'a) pebble_Store =
  pebble_db :: 's
  pebble_writeSync :: bool
  pebble_codec :: "'a Codec option"

definition pebble_Set ::
  "'s pebble_DB \<Rightarrow> ('s, 'a) pebble_Store \<Rightarrow> string \<Rightarrow> 'a iface \<Rightarrow>
     error option \<times> ('s, 'a) pebble_Store" where
  "pebble_Set P s k v =
     (case CheckKeyAndValue k v of
        Some err \<Rightarrow> (Some err, s)
      | None \<Rightarrow>
          (case pebble_codec s of
             None \<Rightarrow> (Some NilCodecPanic, s)
           | Some codec \<Rightarrow>
               (case Marshal codec v of
                  Inl err \<Rightarrow> (Some err, s)
                | Inr data \<Rightarrow>
                    (let writeOptions =
                           (if pebble_writeSync s then Some \<lparr>Sync = True\<rparr> else None)
                     in case DB_Set P (pebble_db s) (bytes_of_string k) data writeOptions of
                          (err, db') \<Rightarrow> (err, s\<lparr>pebble_db := db'\<rparr>)))))"

text \<open>The value of \<open>closer.Close()\<close> is assigned to \<open>err\<close> and never read: the \<open>return\<close>
  that follows gives the result of \<open>Unmarshal\<close>. The bytes are read after the closer
  is closed; the model takes them to be the bytes that \<open>Get\<close> returned.\<close>

definition pebble_Get ::
  "'s pebble_DB \<Rightarrow> ('s, 'a) pebble_Store \<Rightarrow> string \<Rightarrow> 'a iface \<Rightarrow>
     (bool \<times> error option) \<times> 'a iface \<times> ('s, 'a) pebble_Store" where
  "pebble_Get P s k v =
     (case CheckKeyAndValue k v of
        Some err \<Rightarrow> ((False, Some err), v, s)
      | None \<Rightarrow>
          (case DB_Get P (pebble_db s) (bytes_of_string k) of
             (Inl err, db') \<Rightarrow>
               if err = ErrNotFound then ((False, None), v, s\<lparr>pebble_db := db'\<rparr>)
               else ((False, Some err), v, s\<lparr>pebble_db := db'\<rparr>)
           | (Inr (data, closer_Close), db') \<Rightarrow>
               (case pebble_codec s of
                  None \<Rightarrow> ((False, Some NilCodecPanic), v, s\<lparr>pebble_db := db'\<rparr>)
                | Some codec \<Rightarrow>
                    (case Unmarshal codec data v of
                       (err, v') \<Rightarrow> ((True, err), v', s\<lparr>pebble_db := db'\<rparr>)))))"

definition pebble_Delete ::
  "'s pebble_DB \<Rightarrow> ('s, 'a) pebble_Store \<Rightarrow> string \<Rightarrow>
     error option \<times> ('s, 'a) pebble_Store" where
  "pebble_Delete P s k =
     (case CheckKey k of
        Some err \<Rightarrow> (Some err, s)
      | None \<Rightarrow>
          (let writeOptions = (if pebble_writeSync s then Some \<lparr>Sync = True\<rparr> else None)
           in case DB_Delete P (pebble_db s) (bytes_of_string k) writeOptions of
                (err, db') \<Rightarrow> (err, s\<lparr>pebble_db := db'\<rparr>)))"

record 'a pebble_Options =
  pebble_Path :: string
  pebble_WriteSync :: bool
  pebble_Codec :: "'a Codec option"

definition pebble_DefaultOptions :: "'a Codec \<Rightarrow> 'a pebble_Options" where
  "pebble_DefaultOptions JSON =
     \<lparr>pebble_Path = ''pebble'', pebble_WriteSync = False, pebble_Codec = Some JSON\<rparr>"

text \<open>\<open>Open\<close> is \<open>pebble.Open(path, nil)\<close>.\<close>

definition pebble_NewStore ::
  "(string \<Rightarrow> error + 's) \<Rightarrow> 'a pebble_Options \<Rightarrow> 'a pebble_Options \<Rightarrow>
     (error + ('s, 'a) pebble_Store) \<times> 'a pebble_Options" where
  "pebble_NewStore Open DefaultOptions options =
     (let options1 =
            (if pebble_Path options = []
             then options\<lparr>pebble_Path := pebble_Path DefaultOptions\<rparr> else options);
          options2 =
            (if pebble_Codec options1 = None
             then options1\<lparr>pebble_Codec := pebble_Codec DefaultOptions\<rparr> else options1)
      in case Open (pebble_Path options2) of
           Inl err \<Rightarrow> (Inl err, DefaultOptions)
         | Inr db \<Rightarrow>
             (Inr \<lparr>pebble_db = db, pebble_writeSync = pebble_WriteSync options2,
                   pebble_codec = pebble_Codec options2\<rparr>,
              DefaultOptions))"

section \<open>The nutsdb adapter\<close>

text \<open>
  The calls on \<open>*nutsdb.DB\<close> and on the transaction \<open>*nutsdb.Tx\<close> it hands to a closure. A
  transaction is the engine state the closure works on. \<open>Update(fn)\<close> takes a closure
  that returns an error or nil and the state it wrote. The closure given to \<open>View(fn)\<close>
  assigns to a variable of \<open>Get\<close> that it captures (\<open>data\<close>): the model passes the
  variable's value to the closure and to \<open>View\<close>, and both return it. Of the
  \<open>*nutsdb.Entry\<close> that \<open>tx.Get\<close> returns, the adapter reads \<open>Value\<close>.
\<close>

record nutsdb_Entry =
  Entry_Value :: gobytes

record 's nutsdb_DB =
  Tx_Put :: "'s \<Rightarrow> string \<Rightarrow> bytes \<Rightarrow> gobytes \<Rightarrow> uint32 \<Rightarrow> error option \<times> 's"
  Tx_Get :: "'s \<Rightarrow> string \<Rightarrow> bytes \<Rightarrow> error + nutsdb_Entry"
  Tx_Delete :: "'s \<Rightarrow> string \<Rightarrow> bytes \<Rightarrow> error option \<times> 's"
  DB_Update :: "'s \<Rightarrow> ('s \<Rightarrow> error option \<times> 's) \<Rightarrow> error option \<times> 's"
  DB_View :: "'s \<Rightarrow> ('s \<Rightarrow> gobytes \<Rightarrow> error option \<times> gobytes) \<Rightarrow> gobytes \<Rightarrow>
                (error option \<times> gobytes) \<times> 's"

record ('s, 'a) nutsdb_Store =
  nutsdb_db :: 's
  nutsdb_bucketName :: string
  nutsdb_codec :: "'a Codec option"

definition nutsdb_Set ::
  "'s nutsdb_DB \<Rightarrow> ('s, 'a) nutsdb_Store \<Rightarrow> string \<Rightarrow> 'a iface \<Rightarrow>
     error option \<times> ('s, 'a) nutsdb_Store" where
  "nutsdb_Set N s k v =
     (case CheckKeyAndValue k v of
        Some err \<Rightarrow> (Some err, s)
      | None \<Rightarrow>
          (case nutsdb_codec s of
             None \<Rightarrow> (Some NilCodecPanic, s)
           | Some codec \<Rightarrow>
               (case Marshal codec v of
                  Inl err \<Rightarrow> (Some err, s)
                | Inr data \<Rightarrow>
                    (case DB_Update N (nutsdb_db s)
                            (\<lambda>tx. Tx_Put N tx (nutsdb_bucketName s) (bytes_of_string k) data 0) of
                       (Some err, db') \<Rightarrow> (Some err, s\<lparr>nutsdb_db := db'\<rparr>)
                     | (None, db') \<Rightarrow> (None, s\<lparr>nutsdb_db := db'\<rparr>)))))"

text \<open>Whatever error \<open>View\<close> returns, \<open>Get\<close> returns \<open>(false, nil)\<close>.\<close>

definition nutsdb_Get ::
  "'s nutsdb_DB \<Rightarrow> ('s, 'a) nutsdb_Store \<Rightarrow> string \<Rightarrow> 'a iface \<Rightarrow>
     (bool \<times> error option) \<times> 'a iface \<times> ('s, 'a) nutsdb_Store" where
  "nutsdb_Get N s k v =
     (case CheckKeyAndValue k v of
        Some err \<Rightarrow> ((False, Some err), v, s)
      | None \<Rightarrow>
          (case DB_View N (nutsdb_db s)
                  (\<lambda>tx data.
                     case Tx_Get N tx (nutsdb_bucketName s) (bytes_of_string k) of
                       Inl err \<Rightarrow> (Some err, data)
                     | Inr e \<Rightarrow>
                         (case Entry_Value e of
                            Some bs \<Rightarrow> (None, Some bs)
                          | None \<Rightarrow> (None, data)))
                  None of
             ((Some err, data), db') \<Rightarrow> ((False, None), v, s\<lparr>nutsdb_db := db'\<rparr>)
           | ((None, data), db') \<Rightarrow>
               if data = None then ((False, None), v, s\<lparr>nutsdb_db := db'\<rparr>)
               else
                 (case nutsdb_codec s of
                    None \<Rightarrow> ((False, Some NilCodecPanic), v, s\<lparr>nutsdb_db := db'\<rparr>)
                  | Some codec \<Rightarrow>
                      (case Unmarshal codec data v of
                         (err, v') \<Rightarrow> ((True, err), v', s\<lparr>nutsdb_db := db'\<rparr>)))))"

definition nutsdb_Delete ::
  "'s nutsdb_DB \<Rightarrow> ('s, 'a) nutsdb_Store \<Rightarrow> string \<Rightarrow>
     error option \<times> ('s, 'a) nutsdb_Store" where
  "nutsdb_Delete N s k =
     (case CheckKey k of
        Some err \<Rightarrow> (Some err, s)
      | None \<Rightarrow>
          (case DB_Update N (nutsdb_db s)
                  (\<lambda>tx. Tx_Delete N tx (nutsdb_bucketName s) (bytes_of_string k)) of
             (err, db') \<Rightarrow> (err, s\<lparr>nutsdb_db := db'\<rparr>)))"

text \<open>\<open>nutsdb.Options\<close> of the adapter, and the fields of the engine's own options that
  \<open>NewStore\<close> assigns (the record scheme carries the fields it leaves alone).\<close>

record 'a nutsdb_Options =
  nutsdb_BucketName :: string
  nutsdb_Path :: string
  nutsdb_Sync :: bool
  nutsdb_NodeNum :: int64
  nutsdb_Codec :: "'a Codec option"

record nutsdb_EngineOptions =
  Dir :: string
  SyncEnable :: bool
  NodeNum :: int64

definition nutsdb_DefaultOptions :: "'a Codec \<Rightarrow> 'a nutsdb_Options" where
  "nutsdb_DefaultOptions JSON =
     \<lparr>nutsdb_BucketName = ''default'', nutsdb_Path = ''nuts.db'', nutsdb_Sync = False,
      nutsdb_NodeNum = 1, nutsdb_Codec = Some JSON\<rparr>"

text \<open>\<open>Open\<close> is \<open>nutsdb.Open\<close> and \<open>engine_DefaultOptions\<close> the engine's
  \<open>nutsdb.DefaultOptions\<close>, which \<open>NewStore\<close> copies into \<open>ops\<close>.\<close>

definition nutsdb_NewStore ::
  "('z nutsdb_EngineOptions_scheme \<Rightarrow> error + 's) \<Rightarrow> 'z nutsdb_EngineOptions_scheme \<Rightarrow>
     'a nutsdb_Options \<Rightarrow> 'a nutsdb_Options \<Rightarrow>
     (error + ('s, 'a) nutsdb_Store) \<times> 'a nutsdb_Options" where
  "nutsdb_NewStore Open engine_DefaultOptions DefaultOptions options =
     (let options1 =
            (if nutsdb_BucketName options = []
             then options\<lparr>nutsdb_BucketName := nutsdb_BucketName DefaultOptions\<rparr> else options);
          options2 =
            (if nutsdb_Path options1 = []
             then options1\<lparr>nutsdb_Path := nutsdb_Path DefaultOptions\<rparr> else options1);
          options3 =
            (if nutsdb_Codec options2 = None
             then options2\<lparr>nutsdb_Codec := nutsdb_Codec DefaultOptions\<rparr> else options2);
          options4 =
            (if nutsdb_NodeNum options3 = 0
             then options3\<lparr>nutsdb_NodeNum := nutsdb_NodeNum DefaultOptions\<rparr> else options3);
          ops = engine_DefaultOptions\<lparr>Dir := nutsdb_Path options4,
                                       SyncEnable := nutsdb_Sync options4,
                                       NodeNum := nutsdb_NodeNum options4\<rparr>
      in case Open ops of
           Inl err \<Rightarrow> (Inl err, DefaultOptions)
         | Inr db \<Rightarrow>
             (Inr \<lparr>nutsdb_db = db, nutsdb_bucketName = nutsdb_BucketName options4,
                   nutsdb_codec = nutsdb_Codec options4\<rparr>,
              DefaultOptions))"

section \<open>What the adapters expect of an engine and of a codec\<close>

text \<open>
  The engines are not part of the repository. The properties below are the ones an
  adapter relies on; a theorem that needs one names it as a hypothesis.
\<close>


text \<open>ristretto: a lookup after an admitted \<open>Set\<close> finds the value set; \<open>Del\<close> of a key
  the lookup does not find changes nothing; a second \<open>Del\<close> changes nothing.\<close>

definition Cache_reads_writes :: "'s ristretto_Cache \<Rightarrow> bool" where
  "Cache_reads_writes C \<longleftrightarrow>
     (\<forall>db k v cost db'. Cache_Set C db k v cost = (True, db') \<longrightarrow>
        fst (Cache_Get C db' k) = (v, True))"

definition Cache_Del_absent :: "'s ristretto_Cache \<Rightarrow> bool" where
  "Cache_Del_absent C \<longleftrightarrow>
     (\<forall>db k. snd (fst (Cache_Get C db k)) = False \<longrightarrow> Cache_Del C db k = db)"

definition Cache_Del_idem :: "'s ristretto_Cache \<Rightarrow> bool" where
  "Cache_Del_idem C \<longleftrightarrow> (\<forall>db k. Cache_Del C (Cache_Del C db k) k = Cache_Del C db k)"

text \<open>pebble: a \<open>Get\<close> after a \<open>Set\<close> that returned nil gives the bytes set; \<open>Delete\<close> of
  a key that \<open>Get\<close> reports as not found returns nil and changes nothing; so does a
  \<open>Delete\<close> that follows a \<open>Delete\<close> of the same key.\<close>

definition DB_reads_writes :: "'s pebble_DB \<Rightarrow> bool" where
  "DB_reads_writes P \<longleftrightarrow>
     (\<forall>db k data w db'. DB_Set P db k data w = (None, db') \<longrightarrow>
        (\<exists>closer_Close. fst (DB_Get P db' k) = Inr (data, closer_Close)))"

definition DB_Delete_absent :: "'s pebble_DB \<Rightarrow> bool" where
  "DB_Delete_absent P \<longleftrightarrow>
     (\<forall>db k w. fst (DB_Get P db k) = Inl ErrNotFound \<longrightarrow> DB_Delete P db k w = (None, db))"

definition DB_Delete_idem :: "'s pebble_DB \<Rightarrow> bool" where
  "DB_Delete_idem P \<longleftrightarrow>
     (\<forall>db k w db'. DB_Delete P db k w = (None, db') \<longrightarrow> DB_Delete P db' k w = (None, db'))"

text \<open>nutsdb: \<open>Update\<close> runs its closure on the current state and keeps what the closure
  wrote iff it returned nil; \<open>View\<close> runs its closure and changes nothing. Inside a
  transaction, \<open>Get\<close> after \<open>Put\<close> gives an entry with the value put; \<open>Delete\<close> of a key
  that \<open>Get\<close> fails on returns nil and changes nothing; so does a second \<open>Delete\<close>.\<close>

definition nutsdb_transactions :: "'s nutsdb_DB \<Rightarrow> bool" where
  "nutsdb_transactions N \<longleftrightarrow>
     (\<forall>db fn. DB_Update N db fn =
        (case fn db of (None, db') \<Rightarrow> (None, db') | (Some err, db') \<Rightarrow> (Some err, db))) \<and>
     (\<forall>db fn data. DB_View N db fn data = (fn db data, db))"

definition Tx_reads_writes :: "'s nutsdb_DB \<Rightarrow> bool" where
  "Tx_reads_writes N \<longleftrightarrow>
     (\<forall>tx b k data ttl tx'. Tx_Put N tx b k data ttl = (None, tx') \<longrightarrow>
        Tx_Get N tx' b k = Inr \<lparr>Entry_Value = data\<rparr>)"

definition Tx_Delete_absent :: "'s nutsdb_DB \<Rightarrow> bool" where
  "Tx_Delete_absent N \<longleftrightarrow>
     (\<forall>tx b k. (\<exists>err. Tx_Get N tx b k = Inl err) \<longrightarrow> Tx_Delete N tx b k = (None, tx))"

definition Tx_Delete_idem :: "'s nutsdb_DB \<Rightarrow> bool" where
  "Tx_Delete_idem N \<longleftrightarrow>
     (\<forall>tx b k tx'. Tx_Delete N tx b k = (None, tx') \<longrightarrow> Tx_Delete N tx' b k = (None, tx'))"

section \<open>Engines and a codec to run the adapters on\<close>

text \<open>A cache that keeps in a map every pair it admits; \<open>admit\<close> says which keys it admits.\<close>

definition map_Cache :: "(string \<Rightarrow> bool) \<Rightarrow> (string \<rightharpoonup> cache_value) ristretto_Cache" where
  "map_Cache admit =
     \<lparr>Cache_Set = (\<lambda>m k v cost. if admit k then (True, m(k \<mapsto> v)) else (False, m)),
      Cache_Get = (\<lambda>m k. (case m k of None \<Rightarrow> (NilValue, False) | Some v \<Rightarrow> (v, True), m)),
      Cache_Del = (\<lambda>m k. m(k := None))\<rparr>"

text \<open>A pebble database as a map; \<open>closer_Close\<close> is what the closers of its \<open>Get\<close> return.\<close>

definition map_pebble :: "error option \<Rightarrow> (bytes \<rightharpoonup> gobytes) pebble_DB" where
  "map_pebble closer_Close =
     \<lparr>DB_Get = (\<lambda>m k. (case m k of None \<Rightarrow> Inl ErrNotFound
                                   | Some data \<Rightarrow> Inr (data, closer_Close), m)),
      DB_Set = (\<lambda>m k data w. (None, m(k \<mapsto> data))),
      DB_Delete = (\<lambda>m k w. (None, m(k := None)))\<rparr>"

text \<open>A nutsdb database as a map from bucket and key; with \<open>fault = Some err\<close> no
  transaction starts, and \<open>Update\<close> and \<open>View\<close> return \<open>err\<close>.\<close>

definition map_nutsdb :: "error option \<Rightarrow> (string \<times> bytes \<rightharpoonup> gobytes) nutsdb_DB" where
  "map_nutsdb fault =
     \<lparr>Tx_Put = (\<lambda>m b k data ttl. (None, m((b, k) \<mapsto> data))),
      Tx_Get = (\<lambda>m b k. case m (b, k) of None \<Rightarrow> Inl (EngineError ''key not found'')
                                        | Some data \<Rightarrow> Inr \<lparr>Entry_Value = data\<rparr>),
      Tx_Delete = (\<lambda>m b k. (None, m((b, k) := None))),
      DB_Update = (\<lambda>m fn. case fault of
                             Some err \<Rightarrow> (Some err, m)
                           | None \<Rightarrow> (case fn m of (None, m') \<Rightarrow> (None, m')
                                                 | (Some err, m') \<Rightarrow> (Some err, m))),
      DB_View = (\<lambda>m fn data. case fault of
                                Some err \<Rightarrow> ((Some err, data), m)
                              | None \<Rightarrow> (fn m data, m))\<rparr>"

text \<open>A codec for booleans, written as the words \<open>true\<close> and \<open>false\<close>.\<close>

definition bool_Codec :: "bool Codec" where
  "bool_Codec =
     \<lparr>Marshal = (\<lambda>v. case v of Val b \<Rightarrow> Inr (Some (if b then ''true'' else ''false''))
                             | _ \<Rightarrow> Inl (CodecError ''nil value'')),
      Unmarshal = (\<lambda>data v. case v of
                     Val out \<Rightarrow>
                       if data = Some ''true'' then (None, Val True)
                       else if data = Some ''false'' then (None, Val False)
                       else (Some (CodecError ''invalid character''), Val out)
                   | _ \<Rightarrow> (Some (CodecError ''nil target''), v))\<rparr>"



text \<open>The stores the adapters are run on: a cache that declines one key, and the
  boolean codec.\<close>

abbreviation the_Cache :: "(string \<rightharpoonup> cache_value) ristretto_Cache" where
  "the_Cache \<equiv> map_Cache (\<lambda>k. k \<noteq> ''declined'')"

abbreviation ristretto_store :: "'s \<Rightarrow> ('s, bool) ristretto_Store" where
  "ristretto_store m \<equiv> \<lparr>ristretto_db = m, ristretto_codec = Some bool_Codec\<rparr>"

abbreviation pebble_store ::
  "(bytes \<rightharpoonup> gobytes) \<Rightarrow> (bytes \<rightharpoonup> gobytes, bool) pebble_Store" where
  "pebble_store m \<equiv>
     \<lparr>pebble_db = m, pebble_writeSync = False, pebble_codec = Some bool_Codec\<rparr>"

abbreviation nutsdb_store ::
  "(string \<times> bytes \<rightharpoonup> gobytes) \<Rightarrow> (string \<times> bytes \<rightharpoonup> gobytes, bool) nutsdb_Store" where
  "nutsdb_store m \<equiv>
     \<lparr>nutsdb_db = m, nutsdb_bucketName = ''default'', nutsdb_codec = Some bool_Codec\<rparr>"

section \<open>Validation, and the engines of the previous section\<close>

lemmas validation_defs = CheckKeyAndValue_def CheckKey_def

lemma CheckKeyAndValue_None: "CheckKeyAndValue k v = None \<longleftrightarrow> k \<noteq> [] \<and> \<not> is_nil v"
  by (simp add: validation_defs)

lemma CheckKeyAndValue_Some:
  "k = [] \<or> is_nil v \<Longrightarrow>
     CheckKeyAndValue k v = Some (if k = [] then EmptyKeyError else NilValueError)"
  by (auto simp: validation_defs)

lemma map_Cache_laws:
  "Cache_reads_writes (map_Cache admit)"
  "Cache_Del_absent (map_Cache admit)"
  "Cache_Del_idem (map_Cache admit)"
  by (auto simp: Cache_reads_writes_def Cache_Del_absent_def Cache_Del_idem_def map_Cache_def
      split: if_splits option.splits)

lemma map_pebble_laws:
  "DB_reads_writes (map_pebble closer_Close)"
  "DB_Delete_absent (map_pebble closer_Close)"
  "DB_Delete_idem (map_pebble closer_Close)"
  by (auto simp: DB_reads_writes_def DB_Delete_absent_def DB_Delete_idem_def map_pebble_def
      split: option.splits)

lemma map_nutsdb_laws:
  "nutsdb_transactions (map_nutsdb None)"
  "Tx_reads_writes (map_nutsdb fault)"
  "Tx_Delete_absent (map_nutsdb fault)"
  "Tx_Delete_idem (map_nutsdb fault)"
  by (auto simp: nutsdb_transactions_def Tx_reads_writes_def Tx_Delete_absent_def
      Tx_Delete_idem_def map_nutsdb_def split: option.splits prod.splits)


lemmas run_defs =
  validation_defs bytes_of_string_def bool_Codec_def map_Cache_def map_pebble_def map_nutsdb_def

section \<open>Writing, then reading\<close>







section \<open>Errors of the engine during a read\<close>

text \<open>
  C2. An engine error during \<open>Get\<close>, other than the engine's not-found signal, is to
  reach the caller unmodified, and none is to be dropped or turned into \<open>(false, nil)\<close>.
  pebble's \<open>Get\<close> does so for the error of \<open>DB.Get\<close> (third part below). The code does
  otherwise in two places. nutsdb's \<open>Get\<close> returns \<open>(false, nil)\<close> whenever \<open>View\<close> returns
  an error, whatever the error (first part). pebble's \<open>Get\<close> assigns the error of
  \<open>closer.Close()\<close> and never returns it (second part).
\<close>

theorem Get_drops_engine_errors:
  assumes "k \<noteq> []"
  shows "((\<forall>fn data. fst (fst (DB_View N (nutsdb_db ns) fn data)) = Some err) \<longrightarrow>
            fst (nutsdb_Get N ns k (Val out)) = (False, None)) \<and>
         (pebble_codec ps = Some codec \<and>
          fst (DB_Get P (pebble_db ps) (bytes_of_string k)) = Inr (data, Some err) \<and>
          Unmarshal codec data (Val out) = (None, v') \<longrightarrow>
            fst (pebble_Get P ps k (Val out)) = (True, None)) \<and>
         (fst (DB_Get P (pebble_db ps) (bytes_of_string k)) = Inl err \<and> err \<noteq> ErrNotFound \<longrightarrow>
            fst (pebble_Get P ps k (Val out)) = (False, Some err))"
proof -
  have check: "CheckKeyAndValue k (Val out) = None"
    using assms by (simp add: CheckKeyAndValue_None)
  show ?thesis
  proof (intro conjI impI)
    let ?fn = "\<lambda>tx data.
        case Tx_Get N tx (nutsdb_bucketName ns) (bytes_of_string k) of
          Inl err \<Rightarrow> (Some err, data)
        | Inr e \<Rightarrow> (case Entry_Value e of Some bs \<Rightarrow> (None, Some bs) | None \<Rightarrow> (None, data))"
    assume "\<forall>fn data. fst (fst (DB_View N (nutsdb_db ns) fn data)) = Some err"
    then have "fst (fst (DB_View N (nutsdb_db ns) ?fn None)) = Some err"
      by blast
    then obtain d db' where "DB_View N (nutsdb_db ns) ?fn None = ((Some err, d), db')"
      by (cases "DB_View N (nutsdb_db ns) ?fn None") auto
    then show "fst (nutsdb_Get N ns k (Val out)) = (False, None)"
      by (simp add: nutsdb_Get_def check)
  next
    assume "pebble_codec ps = Some codec \<and>
      fst (DB_Get P (pebble_db ps) (bytes_of_string k)) = Inr (data, Some err) \<and>
      Unmarshal codec data (Val out) = (None, v')"
    then show "fst (pebble_Get P ps k (Val out)) = (True, None)"
      by (cases "DB_Get P (pebble_db ps) (bytes_of_string k)") (auto simp: pebble_Get_def check)
  next
    assume "fst (DB_Get P (pebble_db ps) (bytes_of_string k)) = Inl err \<and> err \<noteq> ErrNotFound"
    then show "fst (pebble_Get P ps k (Val out)) = (False, Some err)"
      by (cases "DB_Get P (pebble_db ps) (bytes_of_string k)") (auto simp: pebble_Get_def check)
  qed
qed

theorem Get_drops_engine_errors_witness:
  "fst (nutsdb_Get (map_nutsdb (Some (EngineError ''db is closed'')))
          (nutsdb_store [(''default'', ''foo'') \<mapsto> Some ''true'']) ''foo'' (Val False)) =
     (False, None) \<and>
   fst (pebble_Get (map_pebble (Some (EngineError ''db is closed'')))
          (pebble_store [''foo'' \<mapsto> Some ''true'']) ''foo'' (Val False)) = (True, None)"
proof -
  have key: "''foo'' \<noteq> []" by simp
  have view: "\<forall>fn data. fst (fst (DB_View (map_nutsdb (Some (EngineError ''db is closed'')))
      (nutsdb_db (nutsdb_store [(''default'', ''foo'') \<mapsto> Some ''true''])) fn data)) =
      Some (EngineError ''db is closed'')"
    by (simp add: map_nutsdb_def)
  have get: "fst (DB_Get (map_pebble (Some (EngineError ''db is closed'')))
      (pebble_db (pebble_store [''foo'' \<mapsto> Some ''true''])) (bytes_of_string ''foo'')) =
      Inr (Some ''true'', Some (EngineError ''db is closed''))"
    by (simp add: run_defs)
  have unmarshal: "Unmarshal bool_Codec (Some ''true'') (Val False) = (None, Val True)"
    by (simp add: bool_Codec_def)
  show ?thesis
    using Get_drops_engine_errors [OF key,
        where N = "map_nutsdb (Some (EngineError ''db is closed''))"
        and ns = "nutsdb_store [(''default'', ''foo'') \<mapsto> Some ''true'']"
        and err = "EngineError ''db is closed''" and out = False
        and P = "map_pebble (Some (EngineError ''db is closed''))"
        and ps = "pebble_store [''foo'' \<mapsto> Some ''true'']"
        and codec = bool_Codec and data = "Some ''true''" and v' = "Val True"]
      view get unmarshal
    by simp
qed

section \<open>The constructors\<close>

lemma pebble_NewStore_resolves:
  "pebble_NewStore Open D options =
     (case Open (if pebble_Path options = [] then pebble_Path D else pebble_Path options) of
        Inl err \<Rightarrow> (Inl err, D)
      | Inr db \<Rightarrow>
          (Inr \<lparr>pebble_db = db, pebble_writeSync = pebble_WriteSync options,
                pebble_codec = (if pebble_Codec options = None then pebble_Codec D
                                else pebble_Codec options)\<rparr>, D))"
  by (cases "pebble_Path options = []"; cases "pebble_Codec options = None")
    (auto simp: pebble_NewStore_def Let_def split: sum.splits)

lemma nutsdb_NewStore_resolves:
  "nutsdb_NewStore Open E D options =
     (case Open (E\<lparr>Dir := (if nutsdb_Path options = [] then nutsdb_Path D
                           else nutsdb_Path options),
                   SyncEnable := nutsdb_Sync options,
                   NodeNum := (if nutsdb_NodeNum options = 0 then nutsdb_NodeNum D
                               else nutsdb_NodeNum options)\<rparr>) of
        Inl err \<Rightarrow> (Inl err, D)
      | Inr db \<Rightarrow>
          (Inr \<lparr>nutsdb_db = db,
                nutsdb_bucketName = (if nutsdb_BucketName options = [] then nutsdb_BucketName D
                                     else nutsdb_BucketName options),
                nutsdb_codec = (if nutsdb_Codec options = None then nutsdb_Codec D
                                else nutsdb_Codec options)\<rparr>, D))"
  by (cases "nutsdb_BucketName options = []"; cases "nutsdb_Path options = []";
      cases "nutsdb_Codec options = None"; cases "nutsdb_NodeNum options = 0")
    (auto simp: nutsdb_NewStore_def Let_def split: sum.splits)

text \<open>
  C3. A field of the options that the caller set is to keep the caller's value, and a
  field left at its zero value is to take the default. pebble and nutsdb do so (the two
  lemmas above). ristretto's \<open>NewStore\<close> compares each of \<open>NumCounters\<close>, \<open>MaxCost\<close> and
  \<open>BufferItems\<close> with itself: the test always holds, and the engine is configured with the
  three values of \<open>DefaultOptions\<close> whatever the caller passed. Only \<open>Metrics\<close> and a
  non-nil \<open>Codec\<close> of the caller are kept.
\<close>

theorem ristretto_NewStore_overrides_options:
  "ristretto_NewStore NewCache D options =
     (case NewCache \<lparr>Config_NumCounters = ristretto_NumCounters D,
                     Config_MaxCost = ristretto_MaxCost D,
                     Config_BufferItems = ristretto_BufferItems D,
                     Config_Metrics = ristretto_Metrics options\<rparr> of
        Inl err \<Rightarrow> (Inl err, D)
      | Inr db \<Rightarrow>
          (Inr \<lparr>ristretto_db = db,
                ristretto_codec = (if ristretto_Codec options = None then ristretto_Codec D
                                   else ristretto_Codec options)\<rparr>, D))"
  by (cases "ristretto_Codec options = None")
    (auto simp: ristretto_NewStore_def Let_def split: sum.splits)

theorem ristretto_NewStore_overrides_options_witness:
  "ristretto_NewStore Inr (ristretto_DefaultOptions bool_Codec)
       \<lparr>ristretto_NumCounters = 5000, ristretto_MaxCost = 7, ristretto_BufferItems = 8,
        ristretto_Metrics = True, ristretto_Codec = None\<rparr> =
     (Inr \<lparr>ristretto_db = \<lparr>Config_NumCounters = 1000, Config_MaxCost = 100,
                           Config_BufferItems = 64, Config_Metrics = True\<rparr>,
           ristretto_codec = Some bool_Codec\<rparr>,
      ristretto_DefaultOptions bool_Codec)"
  using ristretto_NewStore_overrides_options [where NewCache = Inr
      and D = "ristretto_DefaultOptions bool_Codec"
      and options = "\<lparr>ristretto_NumCounters = 5000, ristretto_MaxCost = 7,
        ristretto_BufferItems = 8, ristretto_Metrics = True, ristretto_Codec = None\<rparr>"]
  by (simp add: ristretto_DefaultOptions_def)

text \<open>
  C9. \<open>NewStore\<close> leaves the package variable \<open>DefaultOptions\<close> as it found it, on each
  adapter, for every options value and whether or not the engine opens: the defaulting
  assigns to the constructor's own copy of the options and only reads \<open>DefaultOptions\<close>.
\<close>

theorem NewStore_keeps_DefaultOptions:
  "snd (ristretto_NewStore NewCache D\<^sub>r options\<^sub>r) = D\<^sub>r \<and>
   snd (pebble_NewStore Open\<^sub>p D\<^sub>p options\<^sub>p) = D\<^sub>p \<and>
   snd (nutsdb_NewStore Open\<^sub>n E D\<^sub>n options\<^sub>n) = D\<^sub>n"
  by (simp add: ristretto_NewStore_def pebble_NewStore_def nutsdb_NewStore_def Let_def
      split: sum.splits)

section \<open>Reading a key that is not there\<close>

text \<open>
  C4. \<open>Get\<close> of a non-empty key that the store does not hold returns \<open>(false, nil)\<close> and
  leaves the target \<open>out\<close> as it was, on each adapter. The engine says that it does not
  hold the key by its own signal: the cache's \<open>Get\<close> returns \<open>false\<close>, pebble's \<open>Get\<close>
  returns \<open>ErrNotFound\<close>, the \<open>Get\<close> of a nutsdb transaction returns an error.
\<close>

theorem Get_absent_key:
  assumes "k \<noteq> []"
  shows "(\<not> snd (fst (Cache_Get C (ristretto_db rs) k)) \<longrightarrow>
            fst (ristretto_Get C rs k (Val out)) = (False, None) \<and>
            fst (snd (ristretto_Get C rs k (Val out))) = Val out) \<and>
         (fst (DB_Get P (pebble_db ps) (bytes_of_string k)) = Inl ErrNotFound \<longrightarrow>
            fst (pebble_Get P ps k (Val out)) = (False, None) \<and>
            fst (snd (pebble_Get P ps k (Val out))) = Val out) \<and>
         (nutsdb_transactions N \<and>
          (\<exists>err. Tx_Get N (nutsdb_db ns) (nutsdb_bucketName ns) (bytes_of_string k) = Inl err) \<longrightarrow>
            fst (nutsdb_Get N ns k (Val out)) = (False, None) \<and>
            fst (snd (nutsdb_Get N ns k (Val out))) = Val out)"
proof -
  have check: "CheckKeyAndValue k (Val out) = None"
    using assms by (simp add: CheckKeyAndValue_None)
  show ?thesis
  proof (intro conjI impI)
    assume "\<not> snd (fst (Cache_Get C (ristretto_db rs) k))"
    then show "fst (ristretto_Get C rs k (Val out)) = (False, None)"
      and "fst (snd (ristretto_Get C rs k (Val out))) = Val out"
      by (cases "Cache_Get C (ristretto_db rs) k"; auto simp: ristretto_Get_def check)+
  next
    assume "fst (DB_Get P (pebble_db ps) (bytes_of_string k)) = Inl ErrNotFound"
    then show "fst (pebble_Get P ps k (Val out)) = (False, None)"
      and "fst (snd (pebble_Get P ps k (Val out))) = Val out"
      by (cases "DB_Get P (pebble_db ps) (bytes_of_string k)"; auto simp: pebble_Get_def check)+
  next
    assume "nutsdb_transactions N \<and>
      (\<exists>err. Tx_Get N (nutsdb_db ns) (nutsdb_bucketName ns) (bytes_of_string k) = Inl err)"
    then show "fst (nutsdb_Get N ns k (Val out)) = (False, None)"
      and "fst (snd (nutsdb_Get N ns k (Val out))) = Val out"
      by (auto simp: nutsdb_Get_def check nutsdb_transactions_def)
  qed
qed

theorem Get_absent_key_witness:
  "fst (ristretto_Get the_Cache (ristretto_store [''other'' \<mapsto> Bytes (Some ''true'')])
          ''user1'' (Val False)) = (False, None) \<and>
   fst (snd (ristretto_Get the_Cache (ristretto_store [''other'' \<mapsto> Bytes (Some ''true'')])
          ''user1'' (Val False))) = Val False \<and>
   fst (pebble_Get (map_pebble None) (pebble_store [''other'' \<mapsto> Some ''true''])
          ''user1'' (Val False)) = (False, None) \<and>
   fst (snd (pebble_Get (map_pebble None) (pebble_store [''other'' \<mapsto> Some ''true''])
          ''user1'' (Val False))) = Val False \<and>
   fst (nutsdb_Get (map_nutsdb None) (nutsdb_store [(''default'', ''other'') \<mapsto> Some ''true''])
          ''user1'' (Val False)) = (False, None) \<and>
   fst (snd (nutsdb_Get (map_nutsdb None)
               (nutsdb_store [(''default'', ''other'') \<mapsto> Some ''true''])
               ''user1'' (Val False))) = Val False"
proof -
  have key: "''user1'' \<noteq> []" by simp
  have r: "\<not> snd (fst (Cache_Get the_Cache
      (ristretto_db (ristretto_store [''other'' \<mapsto> Bytes (Some ''true'')])) ''user1''))"
    by (simp add: run_defs)
  have p: "fst (DB_Get (map_pebble None) (pebble_db (pebble_store [''other'' \<mapsto> Some ''true'']))
      (bytes_of_string ''user1'')) = Inl ErrNotFound"
    by (simp add: run_defs)
  have n: "\<exists>err. Tx_Get (map_nutsdb None)
      (nutsdb_db (nutsdb_store [(''default'', ''other'') \<mapsto> Some ''true'']))
      (nutsdb_bucketName (nutsdb_store [(''default'', ''other'') \<mapsto> Some ''true'']))
      (bytes_of_string ''user1'') = Inl err"
    by (simp add: run_defs)
  show ?thesis
    using Get_absent_key [OF key, where C = the_Cache and P = "map_pebble None"
        and N = "map_nutsdb None" and out = False
        and rs = "ristretto_store [''other'' \<mapsto> Bytes (Some ''true'')]"
        and ps = "pebble_store [''other'' \<mapsto> Some ''true'']"
        and ns = "nutsdb_store [(''default'', ''other'') \<mapsto> Some ''true'']"]
      r p n map_nutsdb_laws(1)
    by blast
qed

section \<open>Deleting\<close>

lemma ristretto_Delete_idem:
  assumes "k \<noteq> []"
  shows "fst (ristretto_Delete C rs k) = None"
    and "Cache_Del_absent C \<Longrightarrow> \<not> snd (fst (Cache_Get C (ristretto_db rs) k)) \<Longrightarrow>
           ristretto_Delete C rs k = (None, rs)"
    and "Cache_Del_idem C \<Longrightarrow> ristretto_Delete C rs k = (None, rs') \<Longrightarrow>
           ristretto_Delete C rs' k = (None, rs')"
  using assms
  by (auto simp: ristretto_Delete_def CheckKey_def Cache_Del_absent_def Cache_Del_idem_def)

lemma pebble_Delete_idem:
  assumes "k \<noteq> []"
  shows "DB_Delete_absent P \<Longrightarrow>
           fst (DB_Get P (pebble_db ps) (bytes_of_string k)) = Inl ErrNotFound \<Longrightarrow>
           pebble_Delete P ps k = (None, ps)"
    and "DB_Delete_idem P \<Longrightarrow> pebble_Delete P ps k = (None, ps') \<Longrightarrow>
           pebble_Delete P ps' k = (None, ps')"
proof -
  have check: "CheckKey k = None" using assms by (simp add: CheckKey_def)
  show "pebble_Delete P ps k = (None, ps)"
    if "DB_Delete_absent P" "fst (DB_Get P (pebble_db ps) (bytes_of_string k)) = Inl ErrNotFound"
    using that by (simp add: pebble_Delete_def check DB_Delete_absent_def)
  show "pebble_Delete P ps' k = (None, ps')"
    if law: "DB_Delete_idem P" and first: "pebble_Delete P ps k = (None, ps')"
  proof -
    let ?w = "if pebble_writeSync ps then Some \<lparr>Sync = True\<rparr> else None"
    obtain err db' where engine: "DB_Delete P (pebble_db ps) (bytes_of_string k) ?w = (err, db')"
      by (cases "DB_Delete P (pebble_db ps) (bytes_of_string k) ?w")
    with first have err: "err = None" and ps': "ps' = ps\<lparr>pebble_db := db'\<rparr>"
      by (auto simp: pebble_Delete_def check)
    from law engine err have "DB_Delete P db' (bytes_of_string k) ?w = (None, db')"
      unfolding DB_Delete_idem_def by blast
    then show ?thesis
      by (simp add: pebble_Delete_def check ps')
  qed
qed

lemma nutsdb_Delete_idem:
  assumes "k \<noteq> []" and tx: "nutsdb_transactions N"
  shows "Tx_Delete_absent N \<Longrightarrow>
           (\<exists>err. Tx_Get N (nutsdb_db ns) (nutsdb_bucketName ns) (bytes_of_string k) = Inl err) \<Longrightarrow>
           nutsdb_Delete N ns k = (None, ns)"
    and "Tx_Delete_idem N \<Longrightarrow> nutsdb_Delete N ns k = (None, ns') \<Longrightarrow>
           nutsdb_Delete N ns' k = (None, ns')"
proof -
  have check: "CheckKey k = None" using assms by (simp add: CheckKey_def)
  have update: "\<And>db fn. DB_Update N db fn =
      (case fn db of (None, db') \<Rightarrow> (None, db') | (Some err, db') \<Rightarrow> (Some err, db))"
    using tx by (simp add: nutsdb_transactions_def)
  show "nutsdb_Delete N ns k = (None, ns)"
    if "Tx_Delete_absent N"
      "\<exists>err. Tx_Get N (nutsdb_db ns) (nutsdb_bucketName ns) (bytes_of_string k) = Inl err"
    using that by (auto simp: nutsdb_Delete_def check update Tx_Delete_absent_def)
  show "nutsdb_Delete N ns' k = (None, ns')"
    if law: "Tx_Delete_idem N" and first: "nutsdb_Delete N ns k = (None, ns')"
  proof -
    obtain err db' where engine:
      "Tx_Delete N (nutsdb_db ns) (nutsdb_bucketName ns) (bytes_of_string k) = (err, db')"
      by (cases "Tx_Delete N (nutsdb_db ns) (nutsdb_bucketName ns) (bytes_of_string k)")
    with first have err: "err = None" and ns': "ns' = ns\<lparr>nutsdb_db := db'\<rparr>"
      by (auto simp: nutsdb_Delete_def check update split: option.splits)
    from law engine err
    have "Tx_Delete N db' (nutsdb_bucketName ns) (bytes_of_string k) = (None, db')"
      unfolding Tx_Delete_idem_def by blast
    then show ?thesis
      by (simp add: nutsdb_Delete_def check update ns')
  qed
qed

text \<open>
  C5. \<open>Delete\<close> of a non-empty key that the store does not hold returns nil and leaves
  the store as it was; and once a \<open>Delete(k)\<close> has returned nil, a further \<open>Delete(k)\<close>
  returns nil and leaves the store as the first one left it, so that every repetition
  does. ristretto's \<open>Delete\<close> returns nil for every non-empty key. pebble's and nutsdb's
  return what the engine's delete returns: the engine is one whose delete of a key it
  does not hold, or has just deleted, returns nil and changes nothing.
\<close>

theorem Delete_absent_and_repeated:
  assumes "k \<noteq> []"
  shows "fst (ristretto_Delete C rs k) = None \<and>
         (Cache_Del_absent C \<and> \<not> snd (fst (Cache_Get C (ristretto_db rs) k)) \<longrightarrow>
            ristretto_Delete C rs k = (None, rs)) \<and>
         (Cache_Del_idem C \<and> ristretto_Delete C rs k = (None, rs') \<longrightarrow>
            ristretto_Delete C rs' k = (None, rs')) \<and>
         (DB_Delete_absent P \<and>
          fst (DB_Get P (pebble_db ps) (bytes_of_string k)) = Inl ErrNotFound \<longrightarrow>
            pebble_Delete P ps k = (None, ps)) \<and>
         (DB_Delete_idem P \<and> pebble_Delete P ps k = (None, ps') \<longrightarrow>
            pebble_Delete P ps' k = (None, ps')) \<and>
         (nutsdb_transactions N \<and> Tx_Delete_absent N \<and>
          (\<exists>err. Tx_Get N (nutsdb_db ns) (nutsdb_bucketName ns) (bytes_of_string k) = Inl err) \<longrightarrow>
            nutsdb_Delete N ns k = (None, ns)) \<and>
         (nutsdb_transactions N \<and> Tx_Delete_idem N \<and> nutsdb_Delete N ns k = (None, ns') \<longrightarrow>
            nutsdb_Delete N ns' k = (None, ns'))"
proof (intro conjI impI; (elim conjE)?)
  show "fst (ristretto_Delete C rs k) = None"
    by (rule ristretto_Delete_idem(1) [OF assms])
  show "ristretto_Delete C rs k = (None, rs)"
    if "Cache_Del_absent C" "\<not> snd (fst (Cache_Get C (ristretto_db rs) k))"
    using that by (rule ristretto_Delete_idem(2) [OF assms])
  show "ristretto_Delete C rs' k = (None, rs')"
    if "Cache_Del_idem C" "ristretto_Delete C rs k = (None, rs')"
    using that by (rule ristretto_Delete_idem(3) [OF assms])
  show "pebble_Delete P ps k = (None, ps)"
    if "DB_Delete_absent P" "fst (DB_Get P (pebble_db ps) (bytes_of_string k)) = Inl ErrNotFound"
    using that by (rule pebble_Delete_idem(1) [OF assms])
  show "pebble_Delete P ps' k = (None, ps')"
    if "DB_Delete_idem P" "pebble_Delete P ps k = (None, ps')"
    using that by (rule pebble_Delete_idem(2) [OF assms])
  show "nutsdb_Delete N ns k = (None, ns)"
    if "nutsdb_transactions N" "Tx_Delete_absent N"
      "\<exists>err. Tx_Get N (nutsdb_db ns) (nutsdb_bucketName ns) (bytes_of_string k) = Inl err"
    using that(2,3) by (rule nutsdb_Delete_idem(1) [OF assms that(1)])
  show "nutsdb_Delete N ns' k = (None, ns')"
    if "nutsdb_transactions N" "Tx_Delete_idem N" "nutsdb_Delete N ns k = (None, ns')"
    using that(2,3) by (rule nutsdb_Delete_idem(2) [OF assms that(1)])
qed

theorem Delete_absent_and_repeated_witness:
  "ristretto_Delete the_Cache (ristretto_store Map.empty) ''user1'' =
     (None, ristretto_store Map.empty) \<and>
   ristretto_Delete the_Cache (ristretto_store [''user1'' \<mapsto> Bytes (Some ''true'')]) ''user1'' =
     (None, ristretto_store Map.empty) \<and>
   pebble_Delete (map_pebble None) (pebble_store Map.empty) ''user1'' =
     (None, pebble_store Map.empty) \<and>
   pebble_Delete (map_pebble None) (pebble_store [''user1'' \<mapsto> Some ''true'']) ''user1'' =
     (None, pebble_store Map.empty) \<and>
   nutsdb_Delete (map_nutsdb None) (nutsdb_store Map.empty) ''user1'' =
     (None, nutsdb_store Map.empty) \<and>
   nutsdb_Delete (map_nutsdb None) (nutsdb_store [(''default'', ''user1'') \<mapsto> Some ''true''])
       ''user1'' =
     (None, nutsdb_store Map.empty)"
proof -
  have key: "''user1'' \<noteq> []" by simp
  have r: "ristretto_Delete the_Cache (ristretto_store [''user1'' \<mapsto> Bytes (Some ''true'')])
      ''user1'' = (None, ristretto_store Map.empty)"
    by (simp add: ristretto_Delete_def run_defs)
  have p: "pebble_Delete (map_pebble None) (pebble_store [''user1'' \<mapsto> Some ''true''])
      ''user1'' = (None, pebble_store Map.empty)"
    by (simp add: pebble_Delete_def run_defs)
  have n: "nutsdb_Delete (map_nutsdb None)
      (nutsdb_store [(''default'', ''user1'') \<mapsto> Some ''true'']) ''user1'' =
      (None, nutsdb_store Map.empty)"
    by (simp add: nutsdb_Delete_def run_defs)
  have r0: "\<not> snd (fst (Cache_Get the_Cache (ristretto_db (ristretto_store Map.empty)) ''user1''))"
    by (simp add: run_defs)
  have p0: "fst (DB_Get (map_pebble None) (pebble_db (pebble_store Map.empty))
      (bytes_of_string ''user1'')) = Inl ErrNotFound"
    by (simp add: run_defs)
  have n0: "\<exists>err. Tx_Get (map_nutsdb None) (nutsdb_db (nutsdb_store Map.empty))
      (nutsdb_bucketName (nutsdb_store Map.empty)) (bytes_of_string ''user1'') = Inl err"
    by (simp add: run_defs)
  note once = Delete_absent_and_repeated [OF key, where C = the_Cache
      and P = "map_pebble None" and N = "map_nutsdb None"
      and rs = "ristretto_store [''user1'' \<mapsto> Bytes (Some ''true'')]"
      and rs' = "ristretto_store Map.empty"
      and ps = "pebble_store [''user1'' \<mapsto> Some ''true'']"
      and ps' = "pebble_store Map.empty"
      and ns = "nutsdb_store [(''default'', ''user1'') \<mapsto> Some ''true'']"
      and ns' = "nutsdb_store Map.empty"]
  note absent = Delete_absent_and_repeated [OF key, where C = the_Cache
      and P = "map_pebble None" and N = "map_nutsdb None"
      and rs = "ristretto_store Map.empty" and rs' = "ristretto_store Map.empty"
      and ps = "pebble_store Map.empty" and ps' = "pebble_store Map.empty"
      and ns = "nutsdb_store Map.empty" and ns' = "nutsdb_store Map.empty"]
  have laws: "Cache_Del_absent the_Cache" "Cache_Del_idem the_Cache"
    "DB_Delete_absent (map_pebble None)" "DB_Delete_idem (map_pebble None)"
    "nutsdb_transactions (map_nutsdb None)" "Tx_Delete_absent (map_nutsdb None)"
    "Tx_Delete_idem (map_nutsdb None)"
    by (rule map_Cache_laws map_pebble_laws map_nutsdb_laws)+
  from absent laws r0 p0 n0
  have "ristretto_Delete the_Cache (ristretto_store Map.empty) ''user1'' =
      (None, ristretto_store Map.empty)"
    and "pebble_Delete (map_pebble None) (pebble_store Map.empty) ''user1'' =
      (None, pebble_store Map.empty)"
    and "nutsdb_Delete (map_nutsdb None) (nutsdb_store Map.empty) ''user1'' =
      (None, nutsdb_store Map.empty)"
    by blast+
  moreover from once laws r p n
  have "ristretto_Delete the_Cache (ristretto_store Map.empty) ''user1'' =
      (None, ristretto_store Map.empty)"
    by blast
  ultimately show ?thesis
    using r p n by blast
qed

section \<open>Validation comes first\<close>

text \<open>
  C6. On each adapter, \<open>Set\<close> and \<open>Get\<close> with an empty key, \<open>Set\<close> with a nil value, \<open>Get\<close>
  with a nil target or a target that is a nil pointer, and \<open>Delete\<close> with an empty key
  return the validation error (\<open>EmptyKeyError\<close> for the key, \<open>NilValueError\<close> otherwise).
  The check is the first action: the result is the same for every engine, every codec
  and every state of the store, the store is returned as it was, and \<open>Get\<close> leaves its
  target alone.
\<close>

theorem validation_before_engine:
  "(k = [] \<or> is_nil v \<longrightarrow>
      (\<exists>err. err = (if k = [] then EmptyKeyError else NilValueError) \<and>
         ristretto_Set C rs k v = (Some err, rs) \<and>
         ristretto_Get C rs k v = ((False, Some err), v, rs) \<and>
         pebble_Set P ps k v = (Some err, ps) \<and>
         pebble_Get P ps k v = ((False, Some err), v, ps) \<and>
         nutsdb_Set N ns k v = (Some err, ns) \<and>
         nutsdb_Get N ns k v = ((False, Some err), v, ns))) \<and>
   (k = [] \<longrightarrow>
      ristretto_Delete C rs k = (Some EmptyKeyError, rs) \<and>
      pebble_Delete P ps k = (Some EmptyKeyError, ps) \<and>
      nutsdb_Delete N ns k = (Some EmptyKeyError, ns))"
proof (intro conjI impI)
  assume invalid: "k = [] \<or> is_nil v"
  let ?err = "if k = [] then EmptyKeyError else NilValueError"
  have check: "CheckKeyAndValue k v = Some ?err"
    using invalid by (rule CheckKeyAndValue_Some)
  have "ristretto_Set C rs k v = (Some ?err, rs)"
    and "ristretto_Get C rs k v = ((False, Some ?err), v, rs)"
    and "pebble_Set P ps k v = (Some ?err, ps)"
    and "pebble_Get P ps k v = ((False, Some ?err), v, ps)"
    and "nutsdb_Set N ns k v = (Some ?err, ns)"
    and "nutsdb_Get N ns k v = ((False, Some ?err), v, ns)"
    by (simp_all only: ristretto_Set_def ristretto_Get_def pebble_Set_def pebble_Get_def
          nutsdb_Set_def nutsdb_Get_def check option.case)
  then show "\<exists>err. err = ?err \<and>
         ristretto_Set C rs k v = (Some err, rs) \<and>
         ristretto_Get C rs k v = ((False, Some err), v, rs) \<and>
         pebble_Set P ps k v = (Some err, ps) \<and>
         pebble_Get P ps k v = ((False, Some err), v, ps) \<and>
         nutsdb_Set N ns k v = (Some err, ns) \<and>
         nutsdb_Get N ns k v = ((False, Some err), v, ns)"
    by blast
next
  assume "k = []"
  then show "ristretto_Delete C rs k = (Some EmptyKeyError, rs)"
    by (simp add: ristretto_Delete_def CheckKey_def)
next
  assume "k = []"
  then show "pebble_Delete P ps k = (Some EmptyKeyError, ps)"
    by (simp add: pebble_Delete_def CheckKey_def)
next
  assume "k = []"
  then show "nutsdb_Delete N ns k = (Some EmptyKeyError, ns)"
    by (simp add: nutsdb_Delete_def CheckKey_def)
qed

theorem validation_before_engine_witness:
  "ristretto_Set the_Cache (ristretto_store [''foo'' \<mapsto> Bytes (Some ''true'')]) [] (Val True) =
     (Some EmptyKeyError, ristretto_store [''foo'' \<mapsto> Bytes (Some ''true'')]) \<and>
   pebble_Get (map_pebble None) (pebble_store [''foo'' \<mapsto> Some ''true'']) [] (Val False) =
     ((False, Some EmptyKeyError), Val False, pebble_store [''foo'' \<mapsto> Some ''true'']) \<and>
   nutsdb_Delete (map_nutsdb None) (nutsdb_store [(''default'', ''foo'') \<mapsto> Some ''true'']) [] =
     (Some EmptyKeyError, nutsdb_store [(''default'', ''foo'') \<mapsto> Some ''true'']) \<and>
   nutsdb_Set (map_nutsdb None) (nutsdb_store [(''default'', ''foo'') \<mapsto> Some ''true''])
       ''foo'' Nil_iface =
     (Some NilValueError, nutsdb_store [(''default'', ''foo'') \<mapsto> Some ''true'']) \<and>
   ristretto_Get the_Cache (ristretto_store [''foo'' \<mapsto> Bytes (Some ''true'')]) ''foo'' Nil_ptr =
     ((False, Some NilValueError), Nil_ptr,
      ristretto_store [''foo'' \<mapsto> Bytes (Some ''true'')])"
proof -
  note at = validation_before_engine [where C = the_Cache and P = "map_pebble None"
      and N = "map_nutsdb None"
      and rs = "ristretto_store [''foo'' \<mapsto> Bytes (Some ''true'')]"
      and ps = "pebble_store [''foo'' \<mapsto> Some ''true'']"
      and ns = "nutsdb_store [(''default'', ''foo'') \<mapsto> Some ''true'']"]
  show ?thesis
    using at [where k = "[]" and v = "Val True"] at [where k = "[]" and v = "Val False"]
      at [where k = "''foo''" and v = Nil_iface] at [where k = "''foo''" and v = Nil_ptr]
    by simp
qed

section \<open>Bytes that do not unmarshal\<close>

text \<open>
  C7. When the engine holds bytes under a non-empty key and \<open>Unmarshal\<close> of these bytes
  into the target returns an error, \<open>Get\<close> returns that error, with \<open>found = true\<close>, on each
  adapter. On nutsdb the bytes are an entry's \<open>Value\<close> that is not nil.
\<close>

theorem Get_surfaces_unmarshal_error:
  assumes "k \<noteq> []"
    and "Unmarshal codec data (Val out) = (Some err, v')"
  shows "(ristretto_codec rs = Some codec \<and>
          fst (Cache_Get C (ristretto_db rs) k) = (Bytes data, True) \<longrightarrow>
            fst (ristretto_Get C rs k (Val out)) = (True, Some err)) \<and>
         (pebble_codec ps = Some codec \<and>
          fst (DB_Get P (pebble_db ps) (bytes_of_string k)) = Inr (data, closer_Close) \<longrightarrow>
            fst (pebble_Get P ps k (Val out)) = (True, Some err)) \<and>
         (nutsdb_codec ns = Some codec \<and> nutsdb_transactions N \<and> data \<noteq> None \<and>
          Tx_Get N (nutsdb_db ns) (nutsdb_bucketName ns) (bytes_of_string k) =
            Inr \<lparr>Entry_Value = data\<rparr> \<longrightarrow>
            fst (nutsdb_Get N ns k (Val out)) = (True, Some err))"
proof -
  have check: "CheckKeyAndValue k (Val out) = None"
    using assms(1) by (simp add: CheckKeyAndValue_None)
  show ?thesis
  proof (intro conjI impI)
    assume "ristretto_codec rs = Some codec \<and>
      fst (Cache_Get C (ristretto_db rs) k) = (Bytes data, True)"
    then show "fst (ristretto_Get C rs k (Val out)) = (True, Some err)"
      using assms(2)
      by (cases "Cache_Get C (ristretto_db rs) k") (auto simp: ristretto_Get_def check)
  next
    assume "pebble_codec ps = Some codec \<and>
      fst (DB_Get P (pebble_db ps) (bytes_of_string k)) = Inr (data, closer_Close)"
    then show "fst (pebble_Get P ps k (Val out)) = (True, Some err)"
      using assms(2)
      by (cases "DB_Get P (pebble_db ps) (bytes_of_string k)") (auto simp: pebble_Get_def check)
  next
    assume "nutsdb_codec ns = Some codec \<and> nutsdb_transactions N \<and> data \<noteq> None \<and>
      Tx_Get N (nutsdb_db ns) (nutsdb_bucketName ns) (bytes_of_string k) =
        Inr \<lparr>Entry_Value = data\<rparr>"
    then show "fst (nutsdb_Get N ns k (Val out)) = (True, Some err)"
      using assms(2) by (auto simp: nutsdb_Get_def check nutsdb_transactions_def)
  qed
qed

theorem Get_surfaces_unmarshal_error_witness:
  "fst (ristretto_Get the_Cache (ristretto_store [''foo'' \<mapsto> Bytes (Some ''tru'')])
          ''foo'' (Val False)) = (True, Some (CodecError ''invalid character'')) \<and>
   fst (pebble_Get (map_pebble None) (pebble_store [''foo'' \<mapsto> Some ''tru''])
          ''foo'' (Val False)) = (True, Some (CodecError ''invalid character'')) \<and>
   fst (nutsdb_Get (map_nutsdb None) (nutsdb_store [(''default'', ''foo'') \<mapsto> Some ''tru''])
          ''foo'' (Val False)) = (True, Some (CodecError ''invalid character''))"
proof -
  have key: "''foo'' \<noteq> []" by simp
  have unmarshal: "Unmarshal bool_Codec (Some ''tru'') (Val False) =
      (Some (CodecError ''invalid character''), Val False)"
    by (simp add: bool_Codec_def)
  have r: "fst (Cache_Get the_Cache
      (ristretto_db (ristretto_store [''foo'' \<mapsto> Bytes (Some ''tru'')])) ''foo'') =
      (Bytes (Some ''tru''), True)"
    by (simp add: run_defs)
  have p: "fst (DB_Get (map_pebble None) (pebble_db (pebble_store [''foo'' \<mapsto> Some ''tru'']))
      (bytes_of_string ''foo'')) = Inr (Some ''tru'', None)"
    by (simp add: run_defs)
  have n: "Tx_Get (map_nutsdb None)
      (nutsdb_db (nutsdb_store [(''default'', ''foo'') \<mapsto> Some ''tru'']))
      (nutsdb_bucketName (nutsdb_store [(''default'', ''foo'') \<mapsto> Some ''tru'']))
      (bytes_of_string ''foo'') = Inr \<lparr>Entry_Value = Some ''tru''\<rparr>"
    by (simp add: run_defs)
  show ?thesis
    using Get_surfaces_unmarshal_error [OF key unmarshal, where C = the_Cache
        and P = "map_pebble None" and N = "map_nutsdb None" and closer_Close = None
        and rs = "ristretto_store [''foo'' \<mapsto> Bytes (Some ''tru'')]"
        and ps = "pebble_store [''foo'' \<mapsto> Some ''tru'']"
        and ns = "nutsdb_store [(''default'', ''foo'') \<mapsto> Some ''tru'']"]
      r p n map_nutsdb_laws(1)
    by simp
qed

section \<open>The cache: admission, and entries that hold nil\<close>

text \<open>
  C8. In ristretto's \<open>Set\<close>, once validation and marshalling have succeeded, the result
  is decided by the cache alone: \<open>ErrPairIsNotAdded\<close> when it declines the pair, nil when
  it admits it. \<open>ErrPairIsNotAdded\<close> is an error value of its own, none of the engine
  errors and neither of the validation errors.
\<close>

theorem ristretto_Set_admission:
  assumes "CheckKeyAndValue k v = None"
    and "ristretto_codec s = Some codec"
    and "Marshal codec v = Inr data"
    and "Cache_Set C (ristretto_db s) k (Bytes data) 0 = (added, db')"
  shows "ristretto_Set C s k v =
           (if added then None else Some ErrPairIsNotAdded, s\<lparr>ristretto_db := db'\<rparr>) \<and>
         ErrPairIsNotAdded \<notin> range EngineError \<union> {ErrNotFound, EmptyKeyError, NilValueError}"
  using assms by (auto simp: ristretto_Set_def)

theorem ristretto_Set_admission_witness:
  "ristretto_Set the_Cache (ristretto_store Map.empty) ''declined'' (Val True) =
     (Some ErrPairIsNotAdded, ristretto_store Map.empty) \<and>
   ristretto_Set the_Cache (ristretto_store Map.empty) ''admitted'' (Val True) =
     (None, ristretto_store [''admitted'' \<mapsto> Bytes (Some ''true'')])"
proof -
  have valid: "CheckKeyAndValue ''declined'' (Val True) = None"
    "CheckKeyAndValue ''admitted'' (Val True) = None"
    by (simp_all add: validation_defs)
  have codec: "ristretto_codec (ristretto_store Map.empty) = Some bool_Codec"
    by simp
  have marshal: "Marshal bool_Codec (Val True) = Inr (Some ''true'')"
    by (simp add: bool_Codec_def)
  have declined: "Cache_Set the_Cache (ristretto_db (ristretto_store Map.empty)) ''declined''
      (Bytes (Some ''true'')) 0 = (False, Map.empty)"
    by (simp add: map_Cache_def)
  have admitted: "Cache_Set the_Cache (ristretto_db (ristretto_store Map.empty)) ''admitted''
      (Bytes (Some ''true'')) 0 = (True, [''admitted'' \<mapsto> Bytes (Some ''true'')])"
    by (simp add: map_Cache_def)
  show ?thesis
    using ristretto_Set_admission [OF valid(1) codec marshal declined]
      ristretto_Set_admission [OF valid(2) codec marshal admitted]
    by simp
qed

text \<open>
  C10. ristretto's \<open>Get\<close> returns \<open>found = true\<close> only when the cache reports the key
  present with a value that is not nil. When the cache reports the key present and the
  value is nil, \<open>Get\<close> of a valid key and target returns \<open>(false, nil)\<close>, as for a key
  that is absent, and leaves the target alone.
\<close>

theorem ristretto_Get_found_only_non_nil:
  "(fst (fst (ristretto_Get C s k v)) \<longrightarrow>
      (\<exists>value. value \<noteq> NilValue \<and> fst (Cache_Get C (ristretto_db s) k) = (value, True))) \<and>
   (CheckKeyAndValue k v = None \<and> Cache_Get C (ristretto_db s) k = ((NilValue, True), db') \<longrightarrow>
      ristretto_Get C s k v = ((False, None), v, s\<lparr>ristretto_db := db'\<rparr>))"
  by (auto simp: ristretto_Get_def split: option.splits prod.splits cache_value.splits)

theorem ristretto_Get_found_only_non_nil_witness:
  "ristretto_Get the_Cache (ristretto_store [''foo'' \<mapsto> NilValue]) ''foo'' (Val False) =
     ((False, None), Val False, ristretto_store [''foo'' \<mapsto> NilValue]) \<and>
   (\<exists>value. value \<noteq> NilValue \<and>
      fst (Cache_Get the_Cache
             (ristretto_db (ristretto_store [''foo'' \<mapsto> Bytes (Some ''true'')])) ''foo'') =
        (value, True))"
proof -
  have valid: "CheckKeyAndValue ''foo'' (Val False) = None"
    by (simp add: validation_defs)
  have nil: "Cache_Get the_Cache (ristretto_db (ristretto_store [''foo'' \<mapsto> NilValue])) ''foo'' =
      ((NilValue, True), [''foo'' \<mapsto> NilValue])"
    by (simp add: map_Cache_def)
  have found: "fst (fst (ristretto_Get the_Cache
      (ristretto_store [''foo'' \<mapsto> Bytes (Some ''true'')]) ''foo'' (Val False)))"
    by (simp add: ristretto_Get_def run_defs)
  show ?thesis
    using ristretto_Get_found_only_non_nil [where C = the_Cache and k = "''foo''"
        and v = "Val False" and s = "ristretto_store [''foo'' \<mapsto> NilValue]"
        and db' = "[''foo'' \<mapsto> NilValue]"]
      ristretto_Get_found_only_non_nil [where C = the_Cache and k = "''foo''"
        and v = "Val False" and s = "ristretto_store [''foo'' \<mapsto> Bytes (Some ''true'')]"]
      valid nil found
    by simp
qed

end
